theory Spec2Isabelle
  imports Main "HOL-Library.Word" "HOL-Library.Sublist"
begin

section \<open>Property lists\<close>

text \<open>
  The restore tool reads the signing request, the signing response and the messages of
  the restore session as property lists. A node is a tagged value; a dictionary keeps
  its entries in insertion order, a key lookup returns the first entry under the key,
  and an iterator visits the entries in that order. The payload of a real or date node
  is never read by the program and is left out.
\<close>

type_synonym bytes = "char list"

datatype plist_type =
  PLIST_BOOLEAN | PLIST_UINT | PLIST_REAL | PLIST_STRING | PLIST_ARRAY
  | PLIST_DICT | PLIST_DATE | PLIST_DATA

datatype plist =
  PBoolean bool
  | PUint "64 word"
  | PReal
  | PString string
  | PArray "plist list"
  | PDict "(string \<times> plist) list"
  | PDate
  | PData bytes

fun plist_get_node_type :: "plist \<Rightarrow> plist_type" where
  "plist_get_node_type (PBoolean _) = PLIST_BOOLEAN"
| "plist_get_node_type (PUint _) = PLIST_UINT"
| "plist_get_node_type PReal = PLIST_REAL"
| "plist_get_node_type (PString _) = PLIST_STRING"
| "plist_get_node_type (PArray _) = PLIST_ARRAY"
| "plist_get_node_type (PDict _) = PLIST_DICT"
| "plist_get_node_type PDate = PLIST_DATE"
| "plist_get_node_type (PData _) = PLIST_DATA"

text \<open>
  A node pointer is \<open>plist option\<close>, \<open>None\<close> being the null pointer.
  \<open>plist_dict_get_item\<close> answers null for a null node, for a node that is not a
  dictionary and for a missing key.
\<close>

fun plist_dict_get_item :: "plist option \<Rightarrow> string \<Rightarrow> plist option" where
  "plist_dict_get_item (Some (PDict kvs)) key = map_of kvs key"
| "plist_dict_get_item _ key = None"

text \<open>
  The entries an iterator over a node yields, in order. An iterator over a node that is
  not a dictionary yields nothing.
\<close>

fun plist_dict_items :: "plist \<Rightarrow> (string \<times> plist) list" where
  "plist_dict_items (PDict kvs) = kvs"
| "plist_dict_items _ = []"

text \<open>
  The guards of the program have the shape
  \<^verbatim>\<open>if (!node || plist_get_node_type(node) != PLIST_STRING) fail; plist_get_string_val(node, &s);\<close>
  The three functions below are that guard followed by the read, for the three node
  kinds the program reads; \<open>None\<close> is the failing branch of the guard.
\<close>

fun string_val :: "plist option \<Rightarrow> string option" where
  "string_val (Some (PString s)) = Some s"
| "string_val _ = None"

fun data_val :: "plist option \<Rightarrow> bytes option" where
  "data_val (Some (PData d)) = Some d"
| "data_val _ = None"

fun dict_node :: "plist option \<Rightarrow> plist option" where
  "dict_node (Some (PDict kvs)) = Some (PDict kvs)"
| "dict_node _ = None"

section \<open>Ticket lookups\<close>

text \<open>
  Both lookups return an \<open>int\<close> status (0 or -1) and write two output cells. The model
  returns the status together with the final contents of the two cells; the contents
  the caller left in the cells come in as arguments, and the first two statements of
  each function overwrite them with null. The diagnostics the lookups print are not
  part of the result and are left out.
\<close>

type_synonym tss_result = "int \<times> string option \<times> bytes option"

definition get_tss_data_by_name ::
  "plist \<Rightarrow> string \<Rightarrow> string option \<Rightarrow> bytes option \<Rightarrow> tss_result" where
  "get_tss_data_by_name tss entry ppath0 pblob0 =
     (let ppath = None; pblob = None in
      case dict_node (plist_dict_get_item (Some tss) entry) of
        None \<Rightarrow> (- 1, ppath, pblob)
      | Some node \<Rightarrow>
          (case string_val (plist_dict_get_item (Some node) ''Path'') of
             None \<Rightarrow> (- 1, ppath, pblob)
           | Some path \<Rightarrow>
               (case data_val (plist_dict_get_item (Some node) ''Blob'') of
                  None \<Rightarrow> (- 1, ppath, pblob)
                | Some blob \<Rightarrow> (0, Some path, Some blob))))"

text \<open>
  The scan of \<open>get_tss_data_by_path\<close> over the entries the iterator yields. An entry
  that is not a dictionary is skipped (\<^verbatim>\<open>continue\<close>); a dictionary without a string
  \<open>Path\<close> ends the scan with -1; a dictionary whose \<open>Path\<close> is the one looked for
  ends the scan, with 0 when it has a data \<open>Blob\<close> and -1 otherwise.
\<close>

fun tss_scan :: "(string \<times> plist) list \<Rightarrow> string \<Rightarrow> tss_result" where
  "tss_scan [] path = (- 1, None, None)"
| "tss_scan ((key, tss_entry) # rest) path =
     (if plist_get_node_type tss_entry \<noteq> PLIST_DICT then tss_scan rest path
      else
        (case string_val (plist_dict_get_item (Some tss_entry) ''Path'') of
           None \<Rightarrow> (- 1, None, None)
         | Some entry_path \<Rightarrow>
             if path = entry_path then
               (case data_val (plist_dict_get_item (Some tss_entry) ''Blob'') of
                  None \<Rightarrow> (- 1, None, None)
                | Some blob \<Rightarrow> (0, Some key, Some blob))
             else tss_scan rest path))"

definition get_tss_data_by_path ::
  "plist \<Rightarrow> string \<Rightarrow> string option \<Rightarrow> bytes option \<Rightarrow> tss_result" where
  "get_tss_data_by_path tss path pname0 pblob0 = tss_scan (plist_dict_items tss) path"

section \<open>Global flags and the device event callback\<close>

text \<open>
  The four file-scope integers of the program. \<open>idevicerestore_mode\<close> holds one of
  the mode constants; \<open>idevicerestore_quit\<close> and \<open>idevicerestore_custom\<close> are
  used as booleans (zero or not).
\<close>

record globals =
  idevicerestore_debug :: int
  idevicerestore_mode :: int
  idevicerestore_quit :: int
  idevicerestore_custom :: int

definition UNKNOWN_MODE :: int where "UNKNOWN_MODE = 0"
definition DFU_MODE :: int where "DFU_MODE = 1"
definition NORMAL_MODE :: int where "NORMAL_MODE = 2"
definition RECOVERY_MODE :: int where "RECOVERY_MODE = 3"
definition RESTORE_MODE :: int where "RESTORE_MODE = 4"

text \<open>The success codes of the device libraries; every other value is an error.\<close>

definition IDEVICE_E_SUCCESS :: int where "IDEVICE_E_SUCCESS = 0"
definition IRECV_E_SUCCESS :: int where "IRECV_E_SUCCESS = 0"
definition LOCKDOWN_E_SUCCESS :: int where "LOCKDOWN_E_SUCCESS = 0"
definition RESTORE_E_SUCCESS :: int where "RESTORE_E_SUCCESS = 0"

datatype idevice_event = IDEVICE_DEVICE_ADD | IDEVICE_DEVICE_REMOVE

definition device_callback :: "idevice_event \<Rightarrow> globals \<Rightarrow> globals" where
  "device_callback event g =
     (if event = IDEVICE_DEVICE_ADD then g\<lparr>idevicerestore_mode := RESTORE_MODE\<rparr>
      else if event = IDEVICE_DEVICE_REMOVE then g\<lparr>idevicerestore_quit := 1\<rparr>
      else g)"

text \<open>
  The callback runs on the event thread of the device library. The main flow only reads
  the two cells the callback writes, at the test of each of its two loops, so the model
  delivers the events that arrive in the course of one loop iteration as a batch before
  the next test.
\<close>

definition deliver :: "idevice_event list \<Rightarrow> globals \<Rightarrow> globals" where
  "deliver evs g = foldl (\<lambda>g' event. device_callback event g') g evs"

section \<open>Observable effects\<close>

text \<open>
  A run is observed through the calls it makes to its collaborators (device libraries,
  bundle reader, signing client, console, file system), in order, and through the
  \<open>error\<close> lines of \<open>main\<close>. An \<open>Error\<close> event carries the format string of the
  line without its arguments and final newline. \<open>info\<close> and \<open>debug\<close> lines are not
  recorded.
\<close>

datatype plist_var = Manifest | Tss_request | Tss_response | Unique_chip_node | Message

datatype event =
  Error string
  | Printf string
  | Getchar
  | Sleep nat
  | Idevice_new
  | Idevice_free
  | Idevice_event_subscribe
  | Irecv_open
  | Irecv_get_ecid
  | Irecv_close
  | Lockdownd_client_new_with_handshake
  | Lockdownd_get_value string
  | Lockdownd_enter_recovery
  | Lockdownd_client_free
  | Ipsw_extract_to_memory string
  | Ipsw_extract_to_file string string
  | Plist_from_xml
  | Plist_free plist_var
  | Tss_create_request
  | Tss_send_request
  | Recovery_send_ibec
  | Recovery_send_applelogo
  | Recovery_send_devicetree
  | Recovery_send_ramdisk
  | Recovery_send_kernelcache
  | Restored_client_new
  | Restored_query_type
  | Restored_start_restore
  | Restored_receive
  | Restored_client_free
  | Restore_handle_progress_msg
  | Restore_handle_status_msg
  | Asr_send_system_image_data_from_file string
  | Restore_send_kernelcache "bytes option" int
  | Restore_send_nor_data
  | Write_file string bytes
  | Unlink string

text \<open>
  A piece of \<open>main\<close> either returns from \<open>main\<close> with an exit code or goes on to the
  next statement with a value. A run is the events so far together with how the piece
  ended; \<open>None\<close> is a piece that never ends (a loop whose exit condition the
  environment never brings about).
\<close>

datatype 'a step = Return int | Next 'a

type_synonym 'a run = "event list \<times> 'a step option"

definition bind_run :: "'a run \<Rightarrow> ('a \<Rightarrow> 'b run) \<Rightarrow> 'b run" where
  "bind_run r f =
     (case r of
        (es, None) \<Rightarrow> (es, None)
      | (es, Some (Return c)) \<Rightarrow> (es, Some (Return c))
      | (es, Some (Next a)) \<Rightarrow> (case f a of (es', s) \<Rightarrow> (es @ es', s)))"

definition fail_run :: "event list \<Rightarrow> 'a run" where
  "fail_run es = (es, Some (Return (- 1)))"

definition next_run :: "event list \<Rightarrow> 'a \<Rightarrow> 'a run" where
  "next_run es a = (es, Some (Next a))"

section \<open>Personalised components\<close>

text \<open>
  The image container codec and the bundle reader live in other files of the program;
  the two functions below take them as parameters. A codec function that returns a
  negative status or a null image is \<open>None\<close>. The bundle is the function from archive
  paths to contents that \<open>ipsw_extract_to_memory\<close> computes.
\<close>

record 'img img3_codec =
  img3_parse_file :: "bytes \<Rightarrow> 'img option"
  img3_replace_signature :: "'img \<Rightarrow> bytes \<Rightarrow> 'img option"
  img3_get_data :: "'img \<Rightarrow> bytes option"

type_synonym ipsw = "string \<Rightarrow> bytes option"

text \<open>
  \<^verbatim>\<open>out = strrchr(path, '/'); if (out != NULL) out++; else out = path;\<close>
\<close>

definition debug_file_name :: "string \<Rightarrow> string" where
  "debug_file_name path =
     (if CHR ''/'' \<in> set path then rev (takeWhile (\<lambda>c. c \<noteq> CHR ''/'') (rev path))
      else path)"

text \<open>
  The result of either function is the events, the status and the final contents of the
  cells \<open>*pdata\<close> and \<open>*psize\<close>, which are written on success only. A lookup that
  returns 0 has filled both of its cells, so the branch for an empty cell after a
  successful lookup is never taken.
\<close>

type_synonym component_result = "event list \<times> int \<times> bytes option \<times> int"

definition get_signed_component_by_name ::
  "globals \<Rightarrow> ipsw \<Rightarrow> 'img img3_codec \<Rightarrow> plist \<Rightarrow> string \<Rightarrow> bytes option \<Rightarrow> int
   \<Rightarrow> component_result" where
  "get_signed_component_by_name g ipsw codec tss component pdata0 psize0 =
     (let (r, ppath, pblob) = get_tss_data_by_name tss component None None in
      if r < 0 then ([], - 1, pdata0, psize0)
      else
        (case (ppath, pblob) of
           (Some path, Some blob) \<Rightarrow>
             (case ipsw path of
                None \<Rightarrow> ([Ipsw_extract_to_memory path], - 1, pdata0, psize0)
              | Some extracted \<Rightarrow>
                  (case img3_parse_file codec extracted of
                     None \<Rightarrow> ([Ipsw_extract_to_memory path], - 1, pdata0, psize0)
                   | Some img3 \<Rightarrow>
                       (case (if idevicerestore_custom g = 0
                              then img3_replace_signature codec img3 blob else Some img3) of
                          None \<Rightarrow> ([Ipsw_extract_to_memory path], - 1, pdata0, psize0)
                        | Some img3' \<Rightarrow>
                            (case img3_get_data codec img3' of
                               None \<Rightarrow> ([Ipsw_extract_to_memory path], - 1, pdata0, psize0)
                             | Some data \<Rightarrow>
                                 (Ipsw_extract_to_memory path #
                                    (if idevicerestore_debug g \<noteq> 0
                                     then [Write_file (debug_file_name path) data] else []),
                                  0, Some data, int (length data))))))
         | _ \<Rightarrow> ([], - 1, pdata0, psize0)))"

definition get_signed_component_by_path ::
  "globals \<Rightarrow> ipsw \<Rightarrow> 'img img3_codec \<Rightarrow> plist \<Rightarrow> string \<Rightarrow> bytes option \<Rightarrow> int
   \<Rightarrow> component_result" where
  "get_signed_component_by_path g ipsw codec tss path pdata0 psize0 =
     (let (r, pname, pblob) = get_tss_data_by_path tss path None None in
      if r < 0 then ([], - 1, pdata0, psize0)
      else
        (case (pname, pblob) of
           (Some name, Some blob) \<Rightarrow>
             (case ipsw path of
                None \<Rightarrow> ([Ipsw_extract_to_memory path], - 1, pdata0, psize0)
              | Some extracted \<Rightarrow>
                  (case img3_parse_file codec extracted of
                     None \<Rightarrow> ([Ipsw_extract_to_memory path], - 1, pdata0, psize0)
                   | Some img3 \<Rightarrow>
                       (case (if idevicerestore_custom g = 0
                              then img3_replace_signature codec img3 blob else Some img3) of
                          None \<Rightarrow> ([Ipsw_extract_to_memory path], - 1, pdata0, psize0)
                        | Some img3' \<Rightarrow>
                            (case img3_get_data codec img3' of
                               None \<Rightarrow> ([Ipsw_extract_to_memory path], - 1, pdata0, psize0)
                             | Some data \<Rightarrow>
                                 (Ipsw_extract_to_memory path #
                                    (if idevicerestore_debug g \<noteq> 0
                                     then [Write_file (debug_file_name path) data] else []),
                                  0, Some data, int (length data))))))
         | _ \<Rightarrow> ([], - 1, pdata0, psize0)))"

section \<open>The environment of a run\<close>

text \<open>
  Everything \<open>main\<close> gets from outside: what each call to a collaborator answers, the
  device events that arrive, and the messages the device sends in restore mode. A
  status is the \<open>int\<close> the call returns; a call that hands back a node or a document
  answers \<open>None\<close> for null.
\<close>

record loop_input =
  li_receive :: "int \<times> plist option"
  li_handler :: int
  li_events :: "idevice_event list"

record 'img world =
  w_ipsw :: ipsw
  w_codec :: "'img img3_codec"
  w_ipsw_extract_to_file :: "string \<Rightarrow> string \<Rightarrow> int"
  w_idevice_new_probe :: int
  w_irecv_open :: int
  w_lockdownd_handshake_ecid :: int
  w_lockdownd_get_value :: "int \<times> plist option"
  w_irecv_get_ecid :: "int \<times> 64 word"
  w_plist_from_xml :: "bytes \<Rightarrow> plist option"
  w_tss_create_request :: "plist option \<Rightarrow> 64 word \<Rightarrow> plist option"
  w_tss_send_request :: "plist \<Rightarrow> plist option"
  w_idevice_new_recovery :: int
  w_lockdownd_handshake_recovery :: int
  w_lockdownd_enter_recovery :: int
  w_recovery_send_ibec :: int
  w_recovery_send_applelogo :: int
  w_recovery_send_devicetree :: int
  w_recovery_send_ramdisk :: int
  w_recovery_send_kernelcache :: int
  w_events_after_subscribe :: "idevice_event list"
  w_events_while_waiting :: "idevice_event list list"
  w_idevice_new_restore :: int
  w_restored_client_new :: int
  w_restored_query_type :: int
  w_restored_start_restore :: int
  w_events_before_loop :: "idevice_event list"
  w_loop_inputs :: "loop_input list"

section \<open>The phases of main\<close>

text \<open>
  The model of \<open>main\<close> starts after the options were read: the flags are in the
  globals and an IPSW was named. Each phase below is a stretch of \<open>main\<close>, in the
  order of the source.
\<close>

text \<open>Lines 111 to 127: find the device.\<close>

definition probe :: "'img world \<Rightarrow> globals \<Rightarrow> globals run" where
  "probe w g =
     (if w_idevice_new_probe w \<noteq> IDEVICE_E_SUCCESS then
        (if w_irecv_open w \<noteq> IRECV_E_SUCCESS then
           fail_run [Idevice_new, Irecv_open,
                     Error ''ERROR: Unable to find device, is it plugged in?'']
         else next_run [Idevice_new, Irecv_open] (g\<lparr>idevicerestore_mode := RECOVERY_MODE\<rparr>))
      else next_run [Idevice_new] (g\<lparr>idevicerestore_mode := NORMAL_MODE\<rparr>))"

text \<open>Lines 129 to 177: read the ECID.\<close>

definition check_ecid :: "64 word \<Rightarrow> (64 word) run" where
  "check_ecid ecid =
     (if ecid \<noteq> 0 then next_run [] ecid
      else fail_run [Error ''Unable to find device ECID''])"

definition retrieve_ecid :: "'img world \<Rightarrow> globals \<Rightarrow> (64 word) run" where
  "retrieve_ecid w g =
     (if idevicerestore_mode g = NORMAL_MODE then
        (if w_lockdownd_handshake_ecid w \<noteq> LOCKDOWN_E_SUCCESS then
           fail_run [Lockdownd_client_new_with_handshake,
                     Error ''ERROR: Unable to connect to lockdownd'', Idevice_free]
         else if fst (w_lockdownd_get_value w) \<noteq> LOCKDOWN_E_SUCCESS then
           fail_run [Lockdownd_client_new_with_handshake, Lockdownd_get_value ''UniqueChipID'',
                     Error ''ERROR: Unable to get UniqueChipID from lockdownd'',
                     Lockdownd_client_free, Idevice_free]
         else
           (case snd (w_lockdownd_get_value w) of
              Some (PUint v) \<Rightarrow>
                bind_run
                  (next_run [Lockdownd_client_new_with_handshake,
                             Lockdownd_get_value ''UniqueChipID'', Lockdownd_client_free,
                             Plist_free Unique_chip_node, Idevice_free] v)
                  check_ecid
            | _ \<Rightarrow>
                fail_run [Lockdownd_client_new_with_handshake,
                          Lockdownd_get_value ''UniqueChipID'',
                          Error ''ERROR: Unable to get ECID'',
                          Lockdownd_client_free, Idevice_free]))
      else if idevicerestore_mode g = RECOVERY_MODE then
        (if fst (w_irecv_get_ecid w) \<noteq> IRECV_E_SUCCESS then
           fail_run [Irecv_get_ecid, Error ''ERROR: Unable to get device ECID'', Irecv_close]
         else bind_run (next_run [Irecv_get_ecid, Irecv_close] (snd (w_irecv_get_ecid w)))
                check_ecid)
      else check_ecid 0)"

text \<open>Lines 179 to 207: read the manifest, build the signing request and send it.\<close>

definition request_ticket :: "'img world \<Rightarrow> 64 word \<Rightarrow> (plist \<times> plist) run" where
  "request_ticket w ecid =
     (case w_ipsw w ''BuildManifest.plist'' of
        None \<Rightarrow>
          fail_run [Ipsw_extract_to_memory ''BuildManifest.plist'',
                    Error ''ERROR: Unable to extract BuildManifest.plist IPSW'']
      | Some buildmanifest_data \<Rightarrow>
          (case w_tss_create_request w (w_plist_from_xml w buildmanifest_data) ecid of
             None \<Rightarrow>
               fail_run [Ipsw_extract_to_memory ''BuildManifest.plist'', Plist_from_xml,
                         Tss_create_request, Error ''ERROR: Unable to create TSS request'',
                         Plist_free Manifest]
           | Some tss_request \<Rightarrow>
               (case w_tss_send_request w tss_request of
                  None \<Rightarrow>
                    fail_run [Ipsw_extract_to_memory ''BuildManifest.plist'', Plist_from_xml,
                              Tss_create_request, Plist_free Manifest, Tss_send_request,
                              Error ''ERROR: Unable to get response from TSS server'',
                              Plist_free Tss_request]
                | Some tss_response \<Rightarrow>
                    next_run [Ipsw_extract_to_memory ''BuildManifest.plist'', Plist_from_xml,
                              Tss_create_request, Plist_free Manifest, Tss_send_request]
                      (tss_request, tss_response))))"

text \<open>
  Lines 209 to 238: find the name of the filesystem image and extract it. Both the
  request and the response are in scope; the name is read from the request.
\<close>

definition extract_filesystem :: "'img world \<Rightarrow> plist \<Rightarrow> plist \<Rightarrow> string run" where
  "extract_filesystem w tss_request tss_response =
     (case dict_node (plist_dict_get_item (Some tss_request) ''OS'') of
        None \<Rightarrow>
          fail_run [Error ''ERROR: Unable to find filesystem node'', Plist_free Tss_request]
      | Some filesystem_node \<Rightarrow>
          (case dict_node (plist_dict_get_item (Some filesystem_node) ''Info'') of
             None \<Rightarrow>
               fail_run [Error ''ERROR: Unable to find filesystem info node'',
                         Plist_free Tss_request]
           | Some filesystem_info_node \<Rightarrow>
               (case string_val (plist_dict_get_item (Some filesystem_info_node) ''Path'') of
                  None \<Rightarrow>
                    fail_run [Error ''ERROR: Unable to find filesystem info path node'',
                              Plist_free Tss_request]
                | Some filesystem \<Rightarrow>
                    if w_ipsw_extract_to_file w filesystem filesystem < 0 then
                      fail_run [Plist_free Tss_request,
                                Ipsw_extract_to_file filesystem filesystem,
                                Error ''ERROR: Unable to extract filesystem'']
                    else
                      next_run [Plist_free Tss_request,
                                Ipsw_extract_to_file filesystem filesystem] filesystem)))"

text \<open>Lines 240 to 271: a device in normal mode is told to enter recovery mode.\<close>

definition enter_recovery :: "'img world \<Rightarrow> globals \<Rightarrow> unit run" where
  "enter_recovery w g =
     (if idevicerestore_mode g = NORMAL_MODE then
        (if w_idevice_new_recovery w \<noteq> IDEVICE_E_SUCCESS then
           fail_run [Idevice_new, Error ''ERROR: Unable to find device'',
                     Plist_free Tss_response]
         else if w_lockdownd_handshake_recovery w \<noteq> LOCKDOWN_E_SUCCESS then
           fail_run [Idevice_new, Lockdownd_client_new_with_handshake,
                     Error ''ERROR: Unable to connect to lockdownd service'',
                     Plist_free Tss_response, Idevice_free]
         else if w_lockdownd_enter_recovery w \<noteq> LOCKDOWN_E_SUCCESS then
           fail_run [Idevice_new, Lockdownd_client_new_with_handshake,
                     Lockdownd_enter_recovery,
                     Error ''ERROR: Unable to place device in recovery mode'',
                     Lockdownd_client_free, Plist_free Tss_response, Idevice_free]
         else
           next_run [Idevice_new, Lockdownd_client_new_with_handshake,
                     Lockdownd_enter_recovery, Lockdownd_client_free, Idevice_free] ())
      else next_run [] ())"

text \<open>
  Lines 273 to 309: upload the boot chain. Each \<open>recovery_send_*\<close> call is one event;
  a negative status ends the run.
\<close>

definition send_step :: "event \<Rightarrow> int \<Rightarrow> string \<Rightarrow> unit run" where
  "send_step call status message =
     (if status < 0 then fail_run [call, Error message, Plist_free Tss_response]
      else next_run [call] ())"

definition upload_boot_chain :: "'img world \<Rightarrow> unit run" where
  "upload_boot_chain w =
     bind_run (send_step Recovery_send_ibec (w_recovery_send_ibec w)
                 ''ERROR: Unable to send iBEC'') (\<lambda>_.
     bind_run (next_run [Sleep 1] ()) (\<lambda>_.
     bind_run (send_step Recovery_send_applelogo (w_recovery_send_applelogo w)
                 ''ERROR: Unable to send AppleLogo'') (\<lambda>_.
     bind_run (send_step Recovery_send_devicetree (w_recovery_send_devicetree w)
                 ''ERROR: Unable to send DeviceTree'') (\<lambda>_.
     bind_run (send_step Recovery_send_ramdisk (w_recovery_send_ramdisk w)
                 ''ERROR: Unable to send Ramdisk'') (\<lambda>_.
     bind_run (next_run [Printf ''Please unplug your device, then plug it back in'',
                         Printf ''Hit any key to continue...'', Getchar] ()) (\<lambda>_.
     send_step Recovery_send_kernelcache (w_recovery_send_kernelcache w)
       ''ERROR: Unable to send KernelCache''))))))"

text \<open>
  Lines 311 to 316: subscribe to device events and poll the mode cell once a second.
  The list gives the events that arrive during each sleep; when it is used up and the
  mode is still not \<open>RESTORE_MODE\<close>, no event will ever arrive and the loop never ends.
\<close>

fun wait_for_restore_mode :: "globals \<Rightarrow> idevice_event list list \<Rightarrow> globals run" where
  "wait_for_restore_mode g [] =
     (if idevicerestore_mode g \<noteq> RESTORE_MODE then ([], None) else next_run [] g)"
| "wait_for_restore_mode g (evs # later) =
     (if idevicerestore_mode g \<noteq> RESTORE_MODE then
        bind_run (next_run [Sleep 1] ()) (\<lambda>_. wait_for_restore_mode (deliver evs g) later)
      else next_run [] g)"

definition await_restore_mode :: "'img world \<Rightarrow> globals \<Rightarrow> globals run" where
  "await_restore_mode w g =
     bind_run (next_run [Idevice_event_subscribe] ()) (\<lambda>_.
       wait_for_restore_mode (deliver (w_events_after_subscribe w) g)
         (w_events_while_waiting w))"

text \<open>Lines 318 to 343: open the device and the restore session.\<close>

definition open_restore_session :: "'img world \<Rightarrow> unit run" where
  "open_restore_session w =
     (if w_idevice_new_restore w \<noteq> IDEVICE_E_SUCCESS then
        fail_run [Idevice_new, Error ''ERROR: Unable to open device'', Plist_free Tss_response]
      else if w_restored_client_new w \<noteq> RESTORE_E_SUCCESS then
        fail_run [Idevice_new, Restored_client_new,
                  Error ''ERROR: Unable to start restored client'',
                  Plist_free Tss_response, Idevice_free]
      else if w_restored_query_type w \<noteq> RESTORE_E_SUCCESS then
        fail_run [Idevice_new, Restored_client_new, Restored_query_type,
                  Error ''ERROR: Device is not in restore mode. QueryType returned \"%s\"'',
                  Plist_free Tss_response, Restored_client_free, Idevice_free]
      else next_run [Idevice_new, Restored_client_new, Restored_query_type] ())"

text \<open>
  Lines 350 to 403: one iteration of the restore loop, from the receive to the release
  of the message. \<open>li_receive\<close> is what \<open>restored_receive\<close> answers (status and
  message), \<open>li_handler\<close> the status of the progress or status handler when the
  message is dispatched to one. The status reported at the end of the iteration is the
  handler's for a progress or status message and the receive's otherwise.
\<close>

definition report_status :: "int \<Rightarrow> event list" where
  "report_status restore_error =
     (if RESTORE_E_SUCCESS \<noteq> restore_error then [Error ''Invalid return status %d''] else [])"

definition restore_body ::
  "'img world \<Rightarrow> globals \<Rightarrow> plist \<Rightarrow> string \<Rightarrow> loop_input \<Rightarrow> unit run" where
  "restore_body w g tss_response filesystem x =
     (let restore_error = fst (li_receive x); message = snd (li_receive x) in
      case string_val (plist_dict_get_item message ''MsgType'') of
        None \<Rightarrow>
          next_run ([Restored_receive] @ report_status restore_error @ [Plist_free Message]) ()
      | Some msgtype \<Rightarrow>
          if msgtype = ''ProgressMsg'' then
            next_run ([Restored_receive, Restore_handle_progress_msg]
                      @ report_status (li_handler x) @ [Plist_free Message]) ()
          else if msgtype = ''DataRequestMsg'' then
            (case string_val (plist_dict_get_item message ''DataType'') of
               None \<Rightarrow>
                 next_run ([Restored_receive] @ report_status restore_error
                           @ [Plist_free Message]) ()
             | Some datatype \<Rightarrow>
                 if datatype = ''SystemImageData'' then
                   next_run ([Restored_receive,
                              Asr_send_system_image_data_from_file filesystem]
                             @ report_status restore_error @ [Plist_free Message]) ()
                 else if datatype = ''KernelCache'' then
                   (case get_signed_component_by_name g (w_ipsw w) (w_codec w) tss_response
                           ''KernelCache'' None 0 of
                      (es, r, kernelcache_data, kernelcache_size) \<Rightarrow>
                        if r < 0 then
                          fail_run ([Restored_receive] @ es
                                    @ [Error ''ERROR: Unable to get kernelcache file''])
                        else
                          next_run ([Restored_receive] @ es
                                    @ [Restore_send_kernelcache kernelcache_data
                                         kernelcache_size]
                                    @ report_status restore_error @ [Plist_free Message]) ())
                 else if datatype = ''NORData'' then
                   next_run ([Restored_receive, Restore_send_nor_data]
                             @ report_status restore_error @ [Plist_free Message]) ()
                 else fail_run [Restored_receive, Error ''Unknown DataType''])
          else if msgtype = ''StatusMsg'' then
            next_run ([Restored_receive, Restore_handle_status_msg]
                      @ report_status (li_handler x) @ [Plist_free Message]) ()
          else
            next_run ([Restored_receive] @ report_status restore_error
                      @ [Plist_free Message]) ())"

text \<open>
  The loop tests the quit cell before every iteration. The list gives what each
  iteration receives; the events that arrive in the course of an iteration are in its
  \<open>li_events\<close>. When the list is used up and the quit cell is still zero, the device
  sends nothing more and the loop never ends.
\<close>

fun restore_loop ::
  "'img world \<Rightarrow> plist \<Rightarrow> string \<Rightarrow> globals \<Rightarrow> loop_input list \<Rightarrow> globals run" where
  "restore_loop w tss_response filesystem g [] =
     (if idevicerestore_quit g = 0 then ([], None) else next_run [] g)"
| "restore_loop w tss_response filesystem g (x # later) =
     (if idevicerestore_quit g = 0 then
        bind_run (restore_body w g tss_response filesystem x) (\<lambda>_.
          restore_loop w tss_response filesystem (deliver (li_events x) g) later)
      else next_run [] g)"

text \<open>Lines 345 to 412: start the restore, run the loop, release everything.\<close>

definition restore_session ::
  "'img world \<Rightarrow> globals \<Rightarrow> plist \<Rightarrow> string \<Rightarrow> unit run" where
  "restore_session w g tss_response filesystem =
     bind_run
       (if w_restored_start_restore w = RESTORE_E_SUCCESS then
          bind_run (next_run [Restored_start_restore] ()) (\<lambda>_.
            restore_loop w tss_response filesystem (deliver (w_events_before_loop w) g)
              (w_loop_inputs w))
        else
          next_run [Restored_start_restore, Error ''ERROR: Could not start restore. %d''] g)
       (\<lambda>_. ([Restored_client_free, Plist_free Tss_response, Idevice_free, Unlink filesystem],
             Some (Return 0)))"

section \<open>main\<close>

definition main :: "'img world \<Rightarrow> globals \<Rightarrow> unit run" where
  "main w g0 =
     bind_run (probe w g0) (\<lambda>g.
     bind_run (retrieve_ecid w g) (\<lambda>ecid.
     bind_run (request_ticket w ecid) (\<lambda>(tss_request, tss_response).
     bind_run (extract_filesystem w tss_request tss_response) (\<lambda>filesystem.
     bind_run (enter_recovery w g) (\<lambda>_.
     bind_run (upload_boot_chain w) (\<lambda>_.
     bind_run (await_restore_mode w g) (\<lambda>g'.
     bind_run (open_restore_session w) (\<lambda>_.
     restore_session w g' tss_response filesystem))))))))"

section \<open>Vocabulary of the properties\<close>

text \<open>
  The \<open>Path\<close> string and the \<open>Blob\<close> data of a ticket entry, when the entry is a
  dictionary that has them.
\<close>

definition entry_path :: "plist \<Rightarrow> string option" where
  "entry_path e = string_val (plist_dict_get_item (Some e) ''Path'')"

definition entry_blob :: "plist \<Rightarrow> bytes option" where
  "entry_blob e = data_val (plist_dict_get_item (Some e) ''Blob'')"

text \<open>
  An entry the scan for \<open>p\<close> passes over: it is not a dictionary, or it is a dictionary
  with a \<open>Path\<close> string other than \<open>p\<close>.
\<close>

definition passed_over :: "string \<Rightarrow> plist \<Rightarrow> bool" where
  "passed_over p e =
     (if plist_get_node_type e = PLIST_DICT
      then (case entry_path e of None \<Rightarrow> False | Some q \<Rightarrow> q \<noteq> p)
      else True)"

text \<open>The \<open>Path\<close> of every dictionary entry of a ticket, in order.\<close>

definition ticket_paths :: "plist \<Rightarrow> string option list" where
  "ticket_paths tss =
     map (\<lambda>(k, e). entry_path e)
       (filter (\<lambda>(k, e). plist_get_node_type e = PLIST_DICT) (plist_dict_items tss))"

text \<open>\<open>d["OS"].Info.Path\<close>, when all three levels are there with the right types.\<close>

definition filesystem_path_of :: "plist \<Rightarrow> string option" where
  "filesystem_path_of d =
     string_val (plist_dict_get_item
       (dict_node (plist_dict_get_item
          (dict_node (plist_dict_get_item (Some d) ''OS'')) ''Info'')) ''Path'')"

text \<open>
  What the personalisation pipeline emits for extracted bytes: parse and serialise, with
  the signature replaced by the blob in between or left as it is.
\<close>

definition serialize_parse :: "'img img3_codec \<Rightarrow> bytes \<Rightarrow> bytes option" where
  "serialize_parse codec extracted =
     Option.bind (img3_parse_file codec extracted) (img3_get_data codec)"

definition serialize_replace_parse ::
  "'img img3_codec \<Rightarrow> bytes \<Rightarrow> bytes \<Rightarrow> bytes option" where
  "serialize_replace_parse codec extracted blob =
     Option.bind
       (Option.bind (img3_parse_file codec extracted)
          (\<lambda>img3. img3_replace_signature codec img3 blob))
       (img3_get_data codec)"

text \<open>
  The status and the two output cells of a component function that went as far as the
  extraction: filled from the emitted bytes, or left as they were with status -1.
\<close>

definition component_output ::
  "bytes option \<Rightarrow> bytes option \<Rightarrow> int \<Rightarrow> int \<times> bytes option \<times> int" where
  "component_output emitted pdata0 psize0 =
     (case emitted of
        None \<Rightarrow> (- 1, pdata0, psize0)
      | Some data \<Rightarrow> (0, Some data, int (length data)))"

text \<open>The mode a run of the probe leaves in the mode cell, when the run goes on.\<close>

definition mode_after :: "globals run \<Rightarrow> int option" where
  "mode_after r =
     (case snd r of Some (Next g) \<Rightarrow> Some (idevicerestore_mode g) | _ \<Rightarrow> None)"


text \<open>The boot chain and the operator pause, in the order of a successful upload.\<close>

definition boot_chain_order :: "event list" where
  "boot_chain_order =
     [Recovery_send_ibec, Recovery_send_applelogo, Recovery_send_devicetree,
      Recovery_send_ramdisk,
      Printf ''Please unplug your device, then plug it back in'',
      Printf ''Hit any key to continue...'', Getchar,
      Recovery_send_kernelcache]"

section \<open>Example inputs\<close>

text \<open>
  A toy container: the first byte is the signature, the rest the payload. Replacing the
  signature keeps the payload.
\<close>

definition toy_codec :: "(bytes \<times> bytes) img3_codec" where
  "toy_codec =
     \<lparr>img3_parse_file = (\<lambda>bs. case bs of [] \<Rightarrow> None | c # payload \<Rightarrow> Some (payload, [c])),
      img3_replace_signature = (\<lambda>img blob. Some (fst img, blob)),
      img3_get_data = (\<lambda>img. Some (snd img @ fst img))\<rparr>"

definition toy_ipsw :: ipsw where
  "toy_ipsw path =
     (if path = ''BuildManifest.plist'' then Some ''manifest''
      else if path = ''kernelcache.release'' then Some ''Skernel''
      else None)"

definition toy_request :: plist where
  "toy_request =
     PDict [(''OS'', PDict [(''Info'', PDict [(''Path'', PString ''fs.dmg'')])])]"

definition toy_ticket :: plist where
  "toy_ticket =
     PDict [(''@ServerVersion'', PString ''1''),
            (''KernelCache'',
               PDict [(''Path'', PString ''kernelcache.release''), (''Blob'', PData ''T'')]),
            (''OS'', PDict [(''Info'', PDict [(''Path'', PString ''other.dmg'')])])]"

text \<open>A ticket whose dictionary entries all have a \<open>Path\<close>, each a different one.\<close>

definition pathful_ticket :: plist where
  "pathful_ticket =
     PDict [(''@ServerVersion'', PString ''1''),
            (''iBEC'', PDict [(''Path'', PString ''iBEC.dfu''), (''Blob'', PData ''S'')]),
            (''KernelCache'',
               PDict [(''Path'', PString ''kernelcache.release''), (''Blob'', PData ''T'')])]"

text \<open>Two entries with the same \<open>Path\<close> and different blobs.\<close>

definition shared_path_ticket :: plist where
  "shared_path_ticket =
     PDict [(''A'', PDict [(''Path'', PString ''p''), (''Blob'', PData ''x'')]),
            (''B'', PDict [(''Path'', PString ''p''), (''Blob'', PData ''y'')])]"

text \<open>A dictionary entry without a \<open>Path\<close> ahead of the entry looked for.\<close>

definition pathless_entry_ticket :: plist where
  "pathless_entry_ticket =
     PDict [(''A'', PDict []),
            (''B'', PDict [(''Path'', PString ''p''), (''Blob'', PData ''y'')])]"

definition toy_globals :: globals where
  "toy_globals =
     \<lparr>idevicerestore_debug = 0, idevicerestore_mode = 0, idevicerestore_quit = 0,
      idevicerestore_custom = 0\<rparr>"

definition gibberish_request :: loop_input where
  "gibberish_request =
     \<lparr>li_receive = (0, Some (PDict [(''MsgType'', PString ''DataRequestMsg''),
                                    (''DataType'', PString ''Gibberish'')])),
      li_handler = 0, li_events = []\<rparr>"




definition removed_during_progress :: loop_input where
  "removed_during_progress =
     \<lparr>li_receive = (0, Some (PDict [(''MsgType'', PString ''ProgressMsg'')])),
      li_handler = 0, li_events = [IDEVICE_DEVICE_REMOVE]\<rparr>"

text \<open>
  A device found in normal mode, every call succeeding, the device turning up in restore
  mode at once and then asking for data of an unknown type.
\<close>

definition toy_world :: "(bytes \<times> bytes) world" where
  "toy_world =
     \<lparr>w_ipsw = toy_ipsw,
      w_codec = toy_codec,
      w_ipsw_extract_to_file = (\<lambda>src dst. 0),
      w_idevice_new_probe = 0,
      w_irecv_open = - 1,
      w_lockdownd_handshake_ecid = 0,
      w_lockdownd_get_value = (0, Some (PUint 5)),
      w_irecv_get_ecid = (- 1, 0),
      w_plist_from_xml = (\<lambda>bs. Some (PDict [])),
      w_tss_create_request = (\<lambda>manifest ecid. Some toy_request),
      w_tss_send_request = (\<lambda>request. Some toy_ticket),
      w_idevice_new_recovery = 0,
      w_lockdownd_handshake_recovery = 0,
      w_lockdownd_enter_recovery = 0,
      w_recovery_send_ibec = 0,
      w_recovery_send_applelogo = 0,
      w_recovery_send_devicetree = 0,
      w_recovery_send_ramdisk = 0,
      w_recovery_send_kernelcache = 0,
      w_events_after_subscribe = [IDEVICE_DEVICE_ADD],
      w_events_while_waiting = [],
      w_idevice_new_restore = 0,
      w_restored_client_new = 0,
      w_restored_query_type = 0,
      w_restored_start_restore = 0,
      w_events_before_loop = [],
      w_loop_inputs = [gibberish_request]\<rparr>"

section \<open>Properties of the ticket lookups\<close>

lemma tss_scan_passes:
  "list_all (\<lambda>(k, e). passed_over p e) pre \<Longrightarrow> tss_scan (pre @ rest) p = tss_scan rest p"
  by (induction pre) (auto simp: passed_over_def entry_path_def split: option.splits if_splits)

lemma tss_scan_hit:
  "plist_get_node_type e = PLIST_DICT \<Longrightarrow> entry_path e = Some p \<Longrightarrow> entry_blob e = Some b
   \<Longrightarrow> tss_scan ((k, e) # post) p = (0, Some k, Some b)"
  by (simp add: entry_path_def entry_blob_def)

lemma tss_scan_hit_no_blob:
  "plist_get_node_type e = PLIST_DICT \<Longrightarrow> entry_path e = Some p \<Longrightarrow> entry_blob e = None
   \<Longrightarrow> tss_scan ((k, e) # post) p = (- 1, None, None)"
  by (simp add: entry_path_def entry_blob_def)

lemma tss_scan_abort:
  "plist_get_node_type e = PLIST_DICT \<Longrightarrow> entry_path e = None
   \<Longrightarrow> tss_scan ((k, e) # post) p = (- 1, None, None)"
  by (simp add: entry_path_def)

lemma tss_scan_no_match:
  "list_all (\<lambda>(k, e). entry_path e \<noteq> Some p) kvs \<Longrightarrow> tss_scan kvs p = (- 1, None, None)"
  by (induction kvs) (auto simp: entry_path_def split: option.splits)

lemma tss_scan_success:
  "fst (tss_scan kvs p) = 0 \<Longrightarrow>
   \<exists>pre k e post b. kvs = pre @ (k, e) # post \<and> list_all (\<lambda>(k, e). passed_over p e) pre
      \<and> plist_get_node_type e = PLIST_DICT \<and> entry_path e = Some p \<and> entry_blob e = Some b
      \<and> tss_scan kvs p = (0, Some k, Some b)"
proof (induction kvs)
  case Nil
  then show ?case by simp
next
  case (Cons x kvs)
  obtain k e where x: "x = (k, e)" by (cases x)
  show ?case
  proof (cases "passed_over p e")
    case True
    then have eq: "tss_scan (x # kvs) p = tss_scan kvs p"
      using tss_scan_passes [of p "[(k, e)]" kvs] by (simp add: x)
    with Cons.prems have "fst (tss_scan kvs p) = 0" by simp
    from Cons.IH [OF this] obtain pre k' e' post b where
      h: "kvs = pre @ (k', e') # post" "list_all (\<lambda>(k, e). passed_over p e) pre"
         "plist_get_node_type e' = PLIST_DICT" "entry_path e' = Some p" "entry_blob e' = Some b"
         "tss_scan kvs p = (0, Some k', Some b)"
      by blast
    have "x # kvs = (x # pre) @ (k', e') # post
        \<and> list_all (\<lambda>(k, e). passed_over p e) (x # pre)
        \<and> plist_get_node_type e' = PLIST_DICT \<and> entry_path e' = Some p
        \<and> entry_blob e' = Some b \<and> tss_scan (x # kvs) p = (0, Some k', Some b)"
      using h eq True by (simp add: x)
    then show ?thesis
      apply (rule_tac x = "x # pre" in exI)
      apply (rule_tac x = k' in exI)
      apply (rule_tac x = e' in exI)
      apply (rule_tac x = post in exI)
      apply (rule_tac x = b in exI)
      apply assumption
      done
  next
    case False
    then have d: "plist_get_node_type e = PLIST_DICT"
      and pe: "entry_path e = None \<or> entry_path e = Some p"
      by (auto simp: passed_over_def split: if_splits option.splits)
    from Cons.prems d pe have p1: "entry_path e = Some p"
      by (auto simp: x entry_path_def)
    from Cons.prems d p1 obtain b where b: "entry_blob e = Some b"
      by (cases "entry_blob e") (auto simp: x entry_path_def entry_blob_def)
    have "x # kvs = [] @ (k, e) # kvs
        \<and> list_all (\<lambda>(k, e). passed_over p e) []
        \<and> plist_get_node_type e = PLIST_DICT \<and> entry_path e = Some p
        \<and> entry_blob e = Some b \<and> tss_scan (x # kvs) p = (0, Some k, Some b)"
      using d p1 b tss_scan_hit [OF d p1 b] by (simp add: x)
    then show ?thesis
      apply (rule_tac x = "[]" in exI)
      apply (rule_tac x = k in exI)
      apply (rule_tac x = e in exI)
      apply (rule_tac x = kvs in exI)
      apply (rule_tac x = b in exI)
      apply assumption
      done
  qed
qed

lemma by_name_success:
  assumes a: "get_tss_data_by_name tss n a0 b0 = (0, Some path, Some blob)"
  shows "\<exists>e. map_of (plist_dict_items tss) n = Some e \<and> plist_get_node_type e = PLIST_DICT
       \<and> entry_path e = Some path \<and> entry_blob e = Some blob"
proof (cases tss)
  case (PDict kvs)
  show ?thesis
  proof (cases "map_of kvs n")
    case None
    with a PDict show ?thesis by (simp add: get_tss_data_by_name_def)
  next
    case (Some e)
    with a PDict show ?thesis
      by (cases e)
         (auto simp: get_tss_data_by_name_def entry_path_def entry_blob_def
               split: option.splits)
  qed
qed (use a in \<open>simp_all add: get_tss_data_by_name_def\<close>)

lemma paths_prefix_passed_over:
  assumes "None \<notin> set (ticket_paths (PDict (pre @ (n, e) # post)))"
      and "distinct (ticket_paths (PDict (pre @ (n, e) # post)))"
      and "plist_get_node_type e = PLIST_DICT"
      and "entry_path e = Some p"
    shows "list_all (\<lambda>(k, e). passed_over p e) pre"
  using assms
  by (induction pre) (auto simp: ticket_paths_def passed_over_def split: if_splits option.splits)

text \<open>
  C10. Whenever \<open>get_tss_data_by_name\<close> returns a failure status, both output cells
  hold null, whatever the caller had left in them; and the function fails exactly when
  the entry is absent or not a dictionary, its \<open>Path\<close> is absent or not a string, or
  its \<open>Blob\<close> is absent or not data.
\<close>

theorem by_name_failure_nulls_outputs:
  "(fst (get_tss_data_by_name tss entry ppath0 pblob0) < 0 \<longrightarrow>
      get_tss_data_by_name tss entry ppath0 pblob0 = (- 1, None, None))
   \<and> (fst (get_tss_data_by_name tss entry ppath0 pblob0) < 0 \<longleftrightarrow>
        (dict_node (plist_dict_get_item (Some tss) entry) = None
         \<or> string_val (plist_dict_get_item (plist_dict_get_item (Some tss) entry) ''Path'') = None
         \<or> data_val (plist_dict_get_item (plist_dict_get_item (Some tss) entry) ''Blob'') = None))"
proof (cases "plist_dict_get_item (Some tss) entry")
  case None
  then show ?thesis by (simp add: get_tss_data_by_name_def)
next
  case (Some node)
  then show ?thesis
    by (cases node) (simp_all add: get_tss_data_by_name_def split: option.splits)
qed

theorem by_name_failure_nulls_outputs_witness:
  "fst (get_tss_data_by_name toy_ticket ''OS'' (Some ''stale'') (Some ''stale'')) < 0
   \<and> get_tss_data_by_name toy_ticket ''OS'' (Some ''stale'') (Some ''stale'') = (- 1, None, None)"
proof -
  have f: "fst (get_tss_data_by_name toy_ticket ''OS'' (Some ''stale'') (Some ''stale'')) < 0"
    by (simp add: get_tss_data_by_name_def toy_ticket_def)
  with by_name_failure_nulls_outputs [of toy_ticket "''OS''" "Some ''stale''" "Some ''stale''"]
  show ?thesis by blast
qed

text \<open>
  C5, as stated, fails: a dictionary entry without a \<open>Path\<close> string ends the scan with a
  failure although a later entry has the path looked for.
\<close>

theorem by_path_pathless_entry_counterexample:
  "map_of (plist_dict_items pathless_entry_ticket) ''B''
     = Some (PDict [(''Path'', PString ''p''), (''Blob'', PData ''y'')])
   \<and> entry_path (PDict [(''Path'', PString ''p''), (''Blob'', PData ''y'')]) = Some ''p''
   \<and> get_tss_data_by_path pathless_entry_ticket ''p'' None None = (- 1, None, None)"
  by (simp add: pathless_entry_ticket_def entry_path_def get_tss_data_by_path_def)

text \<open>
  C5, amended. The by-path lookup scans the top-level entries in order and passes over
  the entries that are not dictionaries and the dictionaries whose \<open>Path\<close> string is
  not \<open>p\<close>. The first entry it does not pass over decides: a dictionary whose \<open>Path\<close>
  is \<open>p\<close> gives its name and blob when it has a data \<open>Blob\<close> and a failure otherwise,
  and a dictionary without a \<open>Path\<close> string gives a failure. The lookup fails when no
  entry has the path \<open>p\<close>, and it succeeds only in the way described.
\<close>

theorem by_path_first_decisive_entry:
  "(list_all (\<lambda>(k, e). passed_over p e) pre \<and> plist_get_node_type e = PLIST_DICT \<longrightarrow>
      get_tss_data_by_path (PDict (pre @ (k, e) # post)) p pname0 pblob0 =
        (case entry_path e of
           None \<Rightarrow> (- 1, None, None)
         | Some q \<Rightarrow>
             if q = p then (case entry_blob e of
                              None \<Rightarrow> (- 1, None, None)
                            | Some b \<Rightarrow> (0, Some k, Some b))
             else get_tss_data_by_path (PDict post) p pname0 pblob0))
   \<and> (list_all (\<lambda>(k, e). entry_path e \<noteq> Some p) (plist_dict_items tss) \<longrightarrow>
        get_tss_data_by_path tss p pname0 pblob0 = (- 1, None, None))
   \<and> (fst (get_tss_data_by_path tss p pname0 pblob0) = 0 \<longrightarrow>
        (\<exists>pre k e post b.
            plist_dict_items tss = pre @ (k, e) # post
            \<and> list_all (\<lambda>(k, e). passed_over p e) pre
            \<and> plist_get_node_type e = PLIST_DICT
            \<and> entry_path e = Some p \<and> entry_blob e = Some b
            \<and> get_tss_data_by_path tss p pname0 pblob0 = (0, Some k, Some b)))"
proof (intro conjI impI)
  assume a: "list_all (\<lambda>(k, e). passed_over p e) pre \<and> plist_get_node_type e = PLIST_DICT"
  then have "tss_scan (pre @ (k, e) # post) p = tss_scan ((k, e) # post) p"
    using tss_scan_passes by blast
  with a show "get_tss_data_by_path (PDict (pre @ (k, e) # post)) p pname0 pblob0 =
        (case entry_path e of
           None \<Rightarrow> (- 1, None, None)
         | Some q \<Rightarrow>
             if q = p then (case entry_blob e of
                              None \<Rightarrow> (- 1, None, None)
                            | Some b \<Rightarrow> (0, Some k, Some b))
             else get_tss_data_by_path (PDict post) p pname0 pblob0)"
    by (simp add: get_tss_data_by_path_def entry_path_def entry_blob_def split: option.splits)
next
  assume "list_all (\<lambda>(k, e). entry_path e \<noteq> Some p) (plist_dict_items tss)"
  then show "get_tss_data_by_path tss p pname0 pblob0 = (- 1, None, None)"
    by (simp add: get_tss_data_by_path_def tss_scan_no_match)
next
  assume "fst (get_tss_data_by_path tss p pname0 pblob0) = 0"
  then have "fst (tss_scan (plist_dict_items tss) p) = 0"
    by (simp add: get_tss_data_by_path_def)
  from tss_scan_success [OF this]
  show "\<exists>pre k e post b.
            plist_dict_items tss = pre @ (k, e) # post
            \<and> list_all (\<lambda>(k, e). passed_over p e) pre
            \<and> plist_get_node_type e = PLIST_DICT
            \<and> entry_path e = Some p \<and> entry_blob e = Some b
            \<and> get_tss_data_by_path tss p pname0 pblob0 = (0, Some k, Some b)"
    by (simp add: get_tss_data_by_path_def)
qed

theorem by_path_first_decisive_entry_witness:
  "list_all (\<lambda>(k, e). passed_over ''kernelcache.release'' e) [(''@ServerVersion'', PString ''1'')]
   \<and> get_tss_data_by_path toy_ticket ''kernelcache.release'' None None
       = (0, Some ''KernelCache'', Some ''T'')
   \<and> list_all (\<lambda>(k, e). entry_path e \<noteq> Some ''absent'') (plist_dict_items toy_ticket)
   \<and> get_tss_data_by_path toy_ticket ''absent'' None None = (- 1, None, None)"
proof -
  let ?e = "PDict [(''Path'', PString ''kernelcache.release''), (''Blob'', PData ''T'')]"
  let ?post = "[(''OS'', PDict [(''Info'', PDict [(''Path'', PString ''other.dmg'')])])]"
  have h1: "list_all (\<lambda>(k, e). passed_over ''kernelcache.release'' e)
              [(''@ServerVersion'', PString ''1'')] \<and> plist_get_node_type ?e = PLIST_DICT"
    by (simp add: passed_over_def)
  have h2: "list_all (\<lambda>(k, e). entry_path e \<noteq> Some ''absent'') (plist_dict_items toy_ticket)"
    by (simp add: toy_ticket_def entry_path_def)
  have t: "toy_ticket = PDict ([(''@ServerVersion'', PString ''1'')] @ (''KernelCache'', ?e) # ?post)"
    by (simp add: toy_ticket_def)
  note T = by_path_first_decisive_entry
         [of _ "[(''@ServerVersion'', PString ''1'')]" ?e "''KernelCache''" ?post None None
             toy_ticket]
  have c1: "get_tss_data_by_path toy_ticket ''kernelcache.release'' None None
              = (0, Some ''KernelCache'', Some ''T'')"
    using T [of "''kernelcache.release''", THEN conjunct1, THEN mp, OF h1]
    by (simp add: t entry_path_def entry_blob_def)
  have c2: "get_tss_data_by_path toy_ticket ''absent'' None None = (- 1, None, None)"
    using T [of "''absent''", THEN conjunct2, THEN conjunct1, THEN mp, OF h2] .
  from h1 h2 c1 c2 show ?thesis by blast
qed

text \<open>
  C2, as stated, fails: two entries share a path, the by-name lookup of the second gives
  its blob, and the by-path lookup of that path gives the blob of the first.
\<close>

theorem by_name_by_path_shared_path_counterexample:
  "get_tss_data_by_name shared_path_ticket ''B'' None None = (0, Some ''p'', Some ''y'')
   \<and> get_tss_data_by_path shared_path_ticket ''p'' None None = (0, Some ''A'', Some ''x'')
   \<and> ''x'' \<noteq> ''y''"
  by (simp add: shared_path_ticket_def get_tss_data_by_name_def get_tss_data_by_path_def)

text \<open>
  C2, amended. For a ticket in which every dictionary entry has a \<open>Path\<close> string and no
  two dictionary entries have the same one: when the by-name lookup of \<open>n\<close> succeeds
  with a path and a blob, the by-path lookup of that path succeeds with the name \<open>n\<close>
  and the same blob.
\<close>

theorem by_name_then_by_path:
  assumes wf: "None \<notin> set (ticket_paths tss)" "distinct (ticket_paths tss)"
      and nm: "get_tss_data_by_name tss n ppath0 pblob0 = (0, Some path, Some blob)"
    shows "get_tss_data_by_path tss path pname0 pblob1 = (0, Some n, Some blob)"
proof -
  from by_name_success [OF nm] obtain e where
    e: "map_of (plist_dict_items tss) n = Some e" "plist_get_node_type e = PLIST_DICT"
       "entry_path e = Some path" "entry_blob e = Some blob"
    by blast
  from e(1) have "(n, e) \<in> set (plist_dict_items tss)" by (rule map_of_SomeD)
  then obtain pre post where sp: "plist_dict_items tss = pre @ (n, e) # post"
    by (meson split_list)
  then have tss: "tss = PDict (pre @ (n, e) # post)" by (cases tss) simp_all
  have "list_all (\<lambda>(k, e). passed_over path e) pre"
    using paths_prefix_passed_over [of pre n e post path] wf e(2,3) by (simp add: tss)
  then have "tss_scan (pre @ (n, e) # post) path = tss_scan ((n, e) # post) path"
    by (rule tss_scan_passes)
  also have "\<dots> = (0, Some n, Some blob)" using e(2,3,4) by (rule tss_scan_hit)
  finally show ?thesis by (simp add: get_tss_data_by_path_def sp)
qed

theorem by_name_then_by_path_witness:
  "None \<notin> set (ticket_paths pathful_ticket) \<and> distinct (ticket_paths pathful_ticket)
   \<and> get_tss_data_by_name pathful_ticket ''KernelCache'' None None
       = (0, Some ''kernelcache.release'', Some ''T'')
   \<and> get_tss_data_by_path pathful_ticket ''kernelcache.release'' None None
       = (0, Some ''KernelCache'', Some ''T'')"
proof -
  have h1: "None \<notin> set (ticket_paths pathful_ticket)"
    by (simp add: ticket_paths_def pathful_ticket_def entry_path_def)
  have h2: "distinct (ticket_paths pathful_ticket)"
    by (simp add: ticket_paths_def pathful_ticket_def entry_path_def)
  have h3: "get_tss_data_by_name pathful_ticket ''KernelCache'' None None
              = (0, Some ''kernelcache.release'', Some ''T'')"
    by (simp add: get_tss_data_by_name_def pathful_ticket_def)
  from h1 h2 h3 by_name_then_by_path [OF h1 h2 h3, of None None]
  show ?thesis by simp
qed

section \<open>Properties of the personalisation pipeline\<close>

text \<open>
  C6. Both component functions look the component up in the ticket in either mode, and
  fail when the lookup fails. After a successful lookup and extraction, in custom mode
  the emitted bytes are the parsed and re-serialised extracted bytes, whatever the
  ticket's blob; with custom mode off the signature is replaced with the ticket's blob
  between parsing and serialising.
\<close>

theorem custom_mode_skips_signature_replacement_only:
  "(get_tss_data_by_name tss component None None = (0, Some path, Some blob)
      \<and> ipsw path = Some extracted \<longrightarrow>
        snd (get_signed_component_by_name g ipsw codec tss component pdata0 psize0) =
          component_output
            (if idevicerestore_custom g = 0 then serialize_replace_parse codec extracted blob
             else serialize_parse codec extracted) pdata0 psize0)
   \<and> (get_tss_data_by_path tss path None None = (0, Some name, Some blob)
        \<and> ipsw path = Some extracted \<longrightarrow>
        snd (get_signed_component_by_path g ipsw codec tss path pdata0 psize0) =
          component_output
            (if idevicerestore_custom g = 0 then serialize_replace_parse codec extracted blob
             else serialize_parse codec extracted) pdata0 psize0)
   \<and> (fst (get_tss_data_by_name tss component None None) < 0 \<longrightarrow>
        get_signed_component_by_name g ipsw codec tss component pdata0 psize0 =
          ([], - 1, pdata0, psize0))
   \<and> (fst (get_tss_data_by_path tss path None None) < 0 \<longrightarrow>
        get_signed_component_by_path g ipsw codec tss path pdata0 psize0 =
          ([], - 1, pdata0, psize0))"
proof (intro conjI impI)
  assume "get_tss_data_by_name tss component None None = (0, Some path, Some blob)
      \<and> ipsw path = Some extracted"
  then show "snd (get_signed_component_by_name g ipsw codec tss component pdata0 psize0) =
          component_output
            (if idevicerestore_custom g = 0 then serialize_replace_parse codec extracted blob
             else serialize_parse codec extracted) pdata0 psize0"
    by (simp add: get_signed_component_by_name_def component_output_def
          serialize_parse_def serialize_replace_parse_def split: option.splits)
next
  assume "get_tss_data_by_path tss path None None = (0, Some name, Some blob)
        \<and> ipsw path = Some extracted"
  then show "snd (get_signed_component_by_path g ipsw codec tss path pdata0 psize0) =
          component_output
            (if idevicerestore_custom g = 0 then serialize_replace_parse codec extracted blob
             else serialize_parse codec extracted) pdata0 psize0"
    by (simp add: get_signed_component_by_path_def component_output_def
          serialize_parse_def serialize_replace_parse_def split: option.splits)
next
  assume neg: "fst (get_tss_data_by_name tss component None None) < 0"
  obtain r a b where "get_tss_data_by_name tss component None None = (r, a, b)"
    by (cases "get_tss_data_by_name tss component None None")
  with neg show "get_signed_component_by_name g ipsw codec tss component pdata0 psize0 =
          ([], - 1, pdata0, psize0)"
    by (simp add: get_signed_component_by_name_def)
next
  assume neg: "fst (get_tss_data_by_path tss path None None) < 0"
  obtain r a b where "get_tss_data_by_path tss path None None = (r, a, b)"
    by (cases "get_tss_data_by_path tss path None None")
  with neg show "get_signed_component_by_path g ipsw codec tss path pdata0 psize0 =
          ([], - 1, pdata0, psize0)"
    by (simp add: get_signed_component_by_path_def)
qed

theorem custom_mode_skips_signature_replacement_only_witness:
  "get_tss_data_by_name toy_ticket ''KernelCache'' None None
     = (0, Some ''kernelcache.release'', Some ''T'')
   \<and> toy_ipsw ''kernelcache.release'' = Some ''Skernel''
   \<and> snd (get_signed_component_by_name (toy_globals\<lparr>idevicerestore_custom := 1\<rparr>)
            toy_ipsw toy_codec toy_ticket ''KernelCache'' None 0) = (0, Some ''Skernel'', 7)
   \<and> snd (get_signed_component_by_name toy_globals
            toy_ipsw toy_codec toy_ticket ''KernelCache'' None 0) = (0, Some ''Tkernel'', 7)
   \<and> fst (get_tss_data_by_name toy_ticket ''iBEC'' None None) < 0
   \<and> get_signed_component_by_name (toy_globals\<lparr>idevicerestore_custom := 1\<rparr>)
            toy_ipsw toy_codec toy_ticket ''iBEC'' (Some ''old'') 3 = ([], - 1, Some ''old'', 3)"
proof -
  have h1: "get_tss_data_by_name toy_ticket ''KernelCache'' None None
              = (0, Some ''kernelcache.release'', Some ''T'')
            \<and> toy_ipsw ''kernelcache.release'' = Some ''Skernel''"
    by (simp add: get_tss_data_by_name_def toy_ticket_def toy_ipsw_def)
  have h2: "fst (get_tss_data_by_name toy_ticket ''iBEC'' None None) < 0"
    by (simp add: get_tss_data_by_name_def toy_ticket_def)
  note T = custom_mode_skips_signature_replacement_only
             [of toy_ticket _ "''kernelcache.release''" "''T''" toy_ipsw "''Skernel''" _
                 toy_codec]
  have c1: "snd (get_signed_component_by_name (toy_globals\<lparr>idevicerestore_custom := 1\<rparr>)
            toy_ipsw toy_codec toy_ticket ''KernelCache'' None 0) = (0, Some ''Skernel'', 7)"
    using T [of "''KernelCache''" "toy_globals\<lparr>idevicerestore_custom := 1\<rparr>" None 0,
             THEN conjunct1, THEN mp, OF h1]
    by (simp add: component_output_def serialize_parse_def toy_codec_def)
  have c2: "snd (get_signed_component_by_name toy_globals
            toy_ipsw toy_codec toy_ticket ''KernelCache'' None 0) = (0, Some ''Tkernel'', 7)"
    using T [of "''KernelCache''" toy_globals None 0, THEN conjunct1, THEN mp, OF h1]
    by (simp add: component_output_def serialize_replace_parse_def toy_codec_def
          toy_globals_def)
  have c3: "get_signed_component_by_name (toy_globals\<lparr>idevicerestore_custom := 1\<rparr>)
            toy_ipsw toy_codec toy_ticket ''iBEC'' (Some ''old'') 3 = ([], - 1, Some ''old'', 3)"
    using T [of "''iBEC''" "toy_globals\<lparr>idevicerestore_custom := 1\<rparr>" "Some ''old''" 3,
             THEN conjunct2, THEN conjunct2, THEN conjunct1, THEN mp, OF h2] .
  from h1 h2 c1 c2 c3 show ?thesis by blast
qed

section \<open>Properties of the phases of main\<close>

text \<open>
  C8. Discovery tries the normal-mode enumeration first and the recovery-mode
  enumeration only when the first fails. It reports that no device was found, and the
  run ends with -1, exactly when both fail; otherwise the mode cell holds
  \<open>NORMAL_MODE\<close> exactly when the first succeeds and \<open>RECOVERY_MODE\<close> exactly when
  only the second does.
\<close>

theorem probe_normal_then_recovery:
  "fst (probe w g) =
     Idevice_new #
       (if w_idevice_new_probe w = IDEVICE_E_SUCCESS then []
        else Irecv_open #
          (if w_irecv_open w = IRECV_E_SUCCESS then []
           else [Error ''ERROR: Unable to find device, is it plugged in?'']))
   \<and> (snd (probe w g) = Some (Return (- 1)))
        = (w_idevice_new_probe w \<noteq> IDEVICE_E_SUCCESS \<and> w_irecv_open w \<noteq> IRECV_E_SUCCESS)
   \<and> mode_after (probe w g) =
       (if w_idevice_new_probe w = IDEVICE_E_SUCCESS then Some NORMAL_MODE
        else if w_irecv_open w = IRECV_E_SUCCESS then Some RECOVERY_MODE
        else None)
   \<and> NORMAL_MODE \<noteq> RECOVERY_MODE"
  by (simp add: probe_def fail_run_def next_run_def mode_after_def NORMAL_MODE_def
        RECOVERY_MODE_def)

text \<open>
  C1. When all five sends succeed, the upload phase makes exactly these calls in this
  order: iBEC, (a sleep), AppleLogo, DeviceTree, RestoreRamDisk, the operator prompt and
  the wait for a key, KernelCache. On every run the sends and the pause that happen
  are an initial stretch of that order, so nothing is sent out of order and nothing is
  skipped; the phase goes on exactly when all five sends succeed and ends the run with
  -1 otherwise.
\<close>

theorem boot_chain_in_fixed_order:
  "(0 \<le> w_recovery_send_ibec w \<and> 0 \<le> w_recovery_send_applelogo w
      \<and> 0 \<le> w_recovery_send_devicetree w \<and> 0 \<le> w_recovery_send_ramdisk w
      \<and> 0 \<le> w_recovery_send_kernelcache w \<longrightarrow>
        upload_boot_chain w =
          ([Recovery_send_ibec, Sleep 1, Recovery_send_applelogo, Recovery_send_devicetree,
            Recovery_send_ramdisk,
            Printf ''Please unplug your device, then plug it back in'',
            Printf ''Hit any key to continue...'', Getchar,
            Recovery_send_kernelcache], Some (Next ())))
   \<and> prefix (filter (\<lambda>e. e \<in> set boot_chain_order) (fst (upload_boot_chain w)))
        boot_chain_order
   \<and> snd (upload_boot_chain w) =
       (if 0 \<le> w_recovery_send_ibec w \<and> 0 \<le> w_recovery_send_applelogo w
           \<and> 0 \<le> w_recovery_send_devicetree w \<and> 0 \<le> w_recovery_send_ramdisk w
           \<and> 0 \<le> w_recovery_send_kernelcache w
        then Some (Next ()) else Some (Return (- 1)))"
  by (simp add: upload_boot_chain_def send_step_def bind_run_def fail_run_def next_run_def
        boot_chain_order_def)

theorem boot_chain_in_fixed_order_witness:
  "0 \<le> w_recovery_send_ibec toy_world \<and> 0 \<le> w_recovery_send_applelogo toy_world
   \<and> 0 \<le> w_recovery_send_devicetree toy_world \<and> 0 \<le> w_recovery_send_ramdisk toy_world
   \<and> 0 \<le> w_recovery_send_kernelcache toy_world
   \<and> upload_boot_chain toy_world =
          ([Recovery_send_ibec, Sleep 1, Recovery_send_applelogo, Recovery_send_devicetree,
            Recovery_send_ramdisk,
            Printf ''Please unplug your device, then plug it back in'',
            Printf ''Hit any key to continue...'', Getchar,
            Recovery_send_kernelcache], Some (Next ()))"
proof -
  have h: "0 \<le> w_recovery_send_ibec toy_world \<and> 0 \<le> w_recovery_send_applelogo toy_world
   \<and> 0 \<le> w_recovery_send_devicetree toy_world \<and> 0 \<le> w_recovery_send_ramdisk toy_world
   \<and> 0 \<le> w_recovery_send_kernelcache toy_world"
    by (simp add: toy_world_def)
  from h boot_chain_in_fixed_order [of toy_world, THEN conjunct1, THEN mp, OF h]
  show ?thesis by blast
qed

subsection \<open>Where the filesystem image is extracted\<close>

lemma in_bind_run:
  "e \<in> set (fst (bind_run r f)) \<longleftrightarrow>
     e \<in> set (fst r) \<or> (\<exists>a. snd r = Some (Next a) \<and> e \<in> set (fst (f a)))"
  by (cases r) (auto simp: bind_run_def split: option.splits step.splits prod.splits)

lemma snd_bind_run_Next:
  "snd (bind_run r f) = Some (Next b) \<longleftrightarrow>
     (\<exists>a. snd r = Some (Next a) \<and> snd (f a) = Some (Next b))"
  by (cases r) (auto simp: bind_run_def split: option.splits step.splits prod.splits)

lemma no_file_probe: "Ipsw_extract_to_file s d \<notin> set (fst (probe w g))"
  by (simp add: probe_def fail_run_def next_run_def)

lemma no_file_retrieve_ecid: "Ipsw_extract_to_file s d \<notin> set (fst (retrieve_ecid w g))"
  by (simp add: retrieve_ecid_def check_ecid_def bind_run_def fail_run_def next_run_def
        split: option.splits plist.splits)

lemma no_file_request_ticket: "Ipsw_extract_to_file s d \<notin> set (fst (request_ticket w ecid))"
  by (simp add: request_ticket_def fail_run_def next_run_def split: option.splits)

lemma request_ticket_Next:
  "snd (request_ticket w ecid) = Some (Next (req, resp)) \<Longrightarrow>
   \<exists>buildmanifest_data. w_ipsw w ''BuildManifest.plist'' = Some buildmanifest_data
     \<and> w_tss_create_request w (w_plist_from_xml w buildmanifest_data) ecid = Some req
     \<and> w_tss_send_request w req = Some resp"
  by (auto simp: request_ticket_def fail_run_def next_run_def split: option.splits)

lemma extract_filesystem_path:
  "extract_filesystem w req resp =
     (case filesystem_path_of req of
        None \<Rightarrow> fail_run (fst (extract_filesystem w req resp))
      | Some filesystem \<Rightarrow>
          if w_ipsw_extract_to_file w filesystem filesystem < 0 then
            fail_run [Plist_free Tss_request, Ipsw_extract_to_file filesystem filesystem,
                      Error ''ERROR: Unable to extract filesystem'']
          else next_run [Plist_free Tss_request, Ipsw_extract_to_file filesystem filesystem]
                 filesystem)"
proof (cases "dict_node (plist_dict_get_item (Some req) ''OS'')")
  case None
  then show ?thesis
    by (simp add: extract_filesystem_def filesystem_path_of_def fail_run_def)
next
  case (Some fs)
  note fs = this
  show ?thesis
  proof (cases "dict_node (plist_dict_get_item (Some fs) ''Info'')")
    case None
    with fs show ?thesis
      by (simp add: extract_filesystem_def filesystem_path_of_def fail_run_def)
  next
    case (Some info)
    with fs show ?thesis
      by (simp add: extract_filesystem_def filesystem_path_of_def fail_run_def
            split: option.splits)
  qed
qed

lemma extract_filesystem_events:
  "Ipsw_extract_to_file s d \<in> set (fst (extract_filesystem w req resp)) \<longleftrightarrow>
     filesystem_path_of req = Some s \<and> d = s"
proof (cases "filesystem_path_of req")
  case None
  then show ?thesis
    by (auto simp: extract_filesystem_def filesystem_path_of_def fail_run_def
             split: option.splits)
next
  case (Some p)
  then show ?thesis
    by (subst extract_filesystem_path) (auto simp: fail_run_def next_run_def)
qed

lemma no_file_enter_recovery: "Ipsw_extract_to_file s d \<notin> set (fst (enter_recovery w g))"
  by (simp add: enter_recovery_def fail_run_def next_run_def)

lemma no_file_upload: "Ipsw_extract_to_file s d \<notin> set (fst (upload_boot_chain w))"
  by (simp add: upload_boot_chain_def in_bind_run send_step_def fail_run_def next_run_def)

lemma no_file_wait: "Ipsw_extract_to_file s d \<notin> set (fst (wait_for_restore_mode g ticks))"
  by (induction ticks arbitrary: g) (simp_all add: in_bind_run next_run_def)

lemma no_file_await: "Ipsw_extract_to_file s d \<notin> set (fst (await_restore_mode w g))"
  by (simp add: await_restore_mode_def in_bind_run next_run_def no_file_wait)

lemma no_file_open: "Ipsw_extract_to_file s d \<notin> set (fst (open_restore_session w))"
  by (simp add: open_restore_session_def fail_run_def next_run_def)

lemma no_file_component:
  "Ipsw_extract_to_file s d \<notin>
     set (fst (get_signed_component_by_name g ipsw codec tss component pdata0 psize0))"
  by (simp add: get_signed_component_by_name_def split: prod.splits option.splits)

lemma no_file_body:
  "Ipsw_extract_to_file s d \<notin> set (fst (restore_body w g tss_response filesystem x))"
  using no_file_component [of s d g "w_ipsw w" "w_codec w" tss_response "''KernelCache''" None 0]
  by (auto simp: restore_body_def report_status_def fail_run_def next_run_def Let_def
        split: option.splits prod.splits)

lemma no_file_loop:
  "Ipsw_extract_to_file s d \<notin> set (fst (restore_loop w tss_response filesystem g xs))"
  by (induction xs arbitrary: g) (simp_all add: in_bind_run next_run_def no_file_body)

lemma no_file_session:
  "Ipsw_extract_to_file s d \<notin> set (fst (restore_session w g tss_response filesystem))"
  by (simp add: restore_session_def in_bind_run next_run_def no_file_loop)

text \<open>
  C3, amended. On every run that reaches the filesystem extraction, the path extracted
  (and the file it is extracted to) is \<open>OS.Info.Path\<close> of the signing request that
  was built from the manifest and sent to the signing service, not of the response.
  The run ends with -1 before any extraction when that entry of the request, its
  \<open>Info\<close> dictionary or its \<open>Path\<close> string is absent or of the wrong type.
\<close>

theorem filesystem_path_read_from_request:
  "(Ipsw_extract_to_file src dst \<in> set (fst (main w g0)) \<longrightarrow>
      (\<exists>ecid buildmanifest_data tss_request tss_response.
          w_ipsw w ''BuildManifest.plist'' = Some buildmanifest_data
          \<and> w_tss_create_request w (w_plist_from_xml w buildmanifest_data) ecid
              = Some tss_request
          \<and> w_tss_send_request w tss_request = Some tss_response
          \<and> filesystem_path_of tss_request = Some src \<and> dst = src))
   \<and> (filesystem_path_of tss_request = None \<longrightarrow>
        snd (extract_filesystem w tss_request tss_response) = Some (Return (- 1))
        \<and> list_all (\<lambda>e. case e of Ipsw_extract_to_file s d \<Rightarrow> False | _ \<Rightarrow> True)
            (fst (extract_filesystem w tss_request tss_response)))"
proof (intro conjI impI)
  assume "Ipsw_extract_to_file src dst \<in> set (fst (main w g0))"
  then obtain g ecid rr where
    rr: "snd (request_ticket w ecid) = Some (Next rr)"
    and ev: "Ipsw_extract_to_file src dst \<in> set (fst (extract_filesystem w (fst rr) (snd rr)))"
    by (auto simp: main_def in_bind_run no_file_probe no_file_retrieve_ecid
          no_file_request_ticket no_file_enter_recovery no_file_upload no_file_await
          no_file_open no_file_session split: prod.splits)
  from rr have "snd (request_ticket w ecid) = Some (Next (fst rr, snd rr))" by simp
  from request_ticket_Next [OF this] ev
  show "\<exists>ecid buildmanifest_data tss_request tss_response.
          w_ipsw w ''BuildManifest.plist'' = Some buildmanifest_data
          \<and> w_tss_create_request w (w_plist_from_xml w buildmanifest_data) ecid
              = Some tss_request
          \<and> w_tss_send_request w tss_request = Some tss_response
          \<and> filesystem_path_of tss_request = Some src \<and> dst = src"
    unfolding extract_filesystem_events by blast
next
  assume n: "filesystem_path_of tss_request = None"
  show "snd (extract_filesystem w tss_request tss_response) = Some (Return (- 1))"
    by (subst extract_filesystem_path) (simp add: n fail_run_def)
next
  assume n: "filesystem_path_of tss_request = None"
  have "\<And>s d. Ipsw_extract_to_file s d \<notin> set (fst (extract_filesystem w tss_request tss_response))"
    by (simp add: extract_filesystem_events n)
  then show "list_all (\<lambda>e. case e of Ipsw_extract_to_file s d \<Rightarrow> False | _ \<Rightarrow> True)
            (fst (extract_filesystem w tss_request tss_response))"
    by (auto simp: list_all_iff split: event.splits)
qed


lemma toy_run:
  "main toy_world toy_globals =
     ([Idevice_new, Lockdownd_client_new_with_handshake,
       Lockdownd_get_value ''UniqueChipID'', Lockdownd_client_free,
       Plist_free Unique_chip_node, Idevice_free,
       Ipsw_extract_to_memory ''BuildManifest.plist'', Plist_from_xml,
       Tss_create_request, Plist_free Manifest, Tss_send_request,
       Plist_free Tss_request, Ipsw_extract_to_file ''fs.dmg'' ''fs.dmg'',
       Idevice_new, Lockdownd_client_new_with_handshake,
       Lockdownd_enter_recovery, Lockdownd_client_free, Idevice_free,
       Recovery_send_ibec, Sleep 1, Recovery_send_applelogo,
       Recovery_send_devicetree, Recovery_send_ramdisk,
       Printf ''Please unplug your device, then plug it back in'',
       Printf ''Hit any key to continue...'', Getchar,
       Recovery_send_kernelcache, Idevice_event_subscribe, Idevice_new,
       Restored_client_new, Restored_query_type, Restored_start_restore,
       Restored_receive, Error ''Unknown DataType''],
      Some (Return (- 1)))"
proof -
  have p1: "probe toy_world toy_globals
              = next_run [Idevice_new] (toy_globals\<lparr>idevicerestore_mode := NORMAL_MODE\<rparr>)"
    by (simp add: probe_def toy_world_def IDEVICE_E_SUCCESS_def)
  have p2: "retrieve_ecid toy_world (toy_globals\<lparr>idevicerestore_mode := NORMAL_MODE\<rparr>)
              = next_run [Lockdownd_client_new_with_handshake,
                   Lockdownd_get_value ''UniqueChipID'', Lockdownd_client_free,
                   Plist_free Unique_chip_node, Idevice_free] 5"
    by (simp add: retrieve_ecid_def check_ecid_def toy_world_def LOCKDOWN_E_SUCCESS_def
          bind_run_def next_run_def)
  have p3: "request_ticket toy_world 5
              = next_run [Ipsw_extract_to_memory ''BuildManifest.plist'', Plist_from_xml,
                   Tss_create_request, Plist_free Manifest, Tss_send_request]
                  (toy_request, toy_ticket)"
    by (simp add: request_ticket_def toy_world_def toy_ipsw_def)
  have p4: "extract_filesystem toy_world toy_request toy_ticket
              = next_run [Plist_free Tss_request, Ipsw_extract_to_file ''fs.dmg'' ''fs.dmg'']
                  ''fs.dmg''"
    by (simp add: extract_filesystem_def toy_world_def toy_request_def)
  have p5: "enter_recovery toy_world (toy_globals\<lparr>idevicerestore_mode := NORMAL_MODE\<rparr>)
              = next_run [Idevice_new, Lockdownd_client_new_with_handshake,
                   Lockdownd_enter_recovery, Lockdownd_client_free, Idevice_free] ()"
    by (simp add: enter_recovery_def toy_world_def IDEVICE_E_SUCCESS_def
          LOCKDOWN_E_SUCCESS_def)
  have p6: "upload_boot_chain toy_world
              = next_run [Recovery_send_ibec, Sleep 1, Recovery_send_applelogo,
                   Recovery_send_devicetree, Recovery_send_ramdisk,
                   Printf ''Please unplug your device, then plug it back in'',
                   Printf ''Hit any key to continue...'', Getchar,
                   Recovery_send_kernelcache] ()"
    by (simp add: upload_boot_chain_def send_step_def toy_world_def bind_run_def next_run_def)
  have p7: "await_restore_mode toy_world (toy_globals\<lparr>idevicerestore_mode := NORMAL_MODE\<rparr>)
              = next_run [Idevice_event_subscribe]
                  (toy_globals\<lparr>idevicerestore_mode := RESTORE_MODE\<rparr>)"
    by (simp add: await_restore_mode_def toy_world_def deliver_def device_callback_def
          bind_run_def next_run_def)
  have p8: "open_restore_session toy_world
              = next_run [Idevice_new, Restored_client_new, Restored_query_type] ()"
    by (simp add: open_restore_session_def toy_world_def IDEVICE_E_SUCCESS_def
          RESTORE_E_SUCCESS_def)
  have p9: "restore_session toy_world (toy_globals\<lparr>idevicerestore_mode := RESTORE_MODE\<rparr>)
              toy_ticket ''fs.dmg''
              = fail_run [Restored_start_restore, Restored_receive, Error ''Unknown DataType'']"
    by (simp add: restore_session_def toy_world_def RESTORE_E_SUCCESS_def deliver_def
          toy_globals_def restore_body_def gibberish_request_def bind_run_def next_run_def
          fail_run_def)
  show ?thesis
    by (simp add: main_def p1 p2 p3 p4 p5 p6 p7 p8 p9 bind_run_def next_run_def fail_run_def)
qed

text \<open>
  C3, as stated, fails: the signing response names one image under \<open>OS.Info.Path\<close>,
  the signing request another, and the run extracts the one the request names.
\<close>

theorem filesystem_path_not_from_response_counterexample:
  "w_tss_send_request toy_world toy_request = Some toy_ticket
   \<and> filesystem_path_of toy_ticket = Some ''other.dmg''
   \<and> filesystem_path_of toy_request = Some ''fs.dmg''
   \<and> Ipsw_extract_to_file ''fs.dmg'' ''fs.dmg'' \<in> set (fst (main toy_world toy_globals))
   \<and> Ipsw_extract_to_file ''other.dmg'' ''other.dmg'' \<notin> set (fst (main toy_world toy_globals))"
  by (simp add: toy_run) (simp add: toy_world_def filesystem_path_of_def toy_ticket_def
        toy_request_def)

theorem filesystem_path_read_from_request_witness:
  "Ipsw_extract_to_file ''fs.dmg'' ''fs.dmg'' \<in> set (fst (main toy_world toy_globals))
   \<and> (\<exists>ecid buildmanifest_data tss_request tss_response.
          w_ipsw toy_world ''BuildManifest.plist'' = Some buildmanifest_data
          \<and> w_tss_create_request toy_world (w_plist_from_xml toy_world buildmanifest_data) ecid
              = Some tss_request
          \<and> w_tss_send_request toy_world tss_request = Some tss_response
          \<and> filesystem_path_of tss_request = Some ''fs.dmg'')
   \<and> filesystem_path_of (PDict [(''OS'', PDict [(''Info'', PString ''fs.dmg'')])]) = None
   \<and> snd (extract_filesystem toy_world (PDict [(''OS'', PDict [(''Info'', PString ''fs.dmg'')])])
            toy_ticket) = Some (Return (- 1))"
proof -
  let ?bad = "PDict [(''OS'', PDict [(''Info'', PString ''fs.dmg'')])]"
  have h1: "Ipsw_extract_to_file ''fs.dmg'' ''fs.dmg'' \<in> set (fst (main toy_world toy_globals))"
    by (simp add: toy_run)
  have h2: "filesystem_path_of ?bad = None"
    by (simp add: filesystem_path_of_def)
  note T = filesystem_path_read_from_request
             [of "''fs.dmg''" "''fs.dmg''" toy_world toy_globals ?bad toy_ticket]
  from T [THEN conjunct1, THEN mp, OF h1] T [THEN conjunct2, THEN mp, OF h2] h1 h2
  show ?thesis by blast
qed

text \<open>
  C4. The run of the example world: the device asks for data of type \<open>Gibberish\<close>. The
  run ends with -1 right after the diagnostic; the restore session that was opened is
  not released and the extracted filesystem image is not unlinked.
\<close>

theorem unknown_datatype_returns_without_cleanup:
  "snd (li_receive gibberish_request)
     = Some (PDict [(''MsgType'', PString ''DataRequestMsg''),
                    (''DataType'', PString ''Gibberish'')])
   \<and> w_loop_inputs toy_world = [gibberish_request]
   \<and> snd (main toy_world toy_globals) = Some (Return (- 1))
   \<and> last (fst (main toy_world toy_globals)) = Error ''Unknown DataType''
   \<and> Restored_client_new \<in> set (fst (main toy_world toy_globals))
   \<and> Restored_client_free \<notin> set (fst (main toy_world toy_globals))
   \<and> Ipsw_extract_to_file ''fs.dmg'' ''fs.dmg'' \<in> set (fst (main toy_world toy_globals))
   \<and> Unlink ''fs.dmg'' \<notin> set (fst (main toy_world toy_globals))"
  by (simp add: toy_run) (simp add: gibberish_request_def toy_world_def)

section \<open>Properties of the restore loop\<close>

lemma quit_after_callback:
  "idevicerestore_quit (device_callback event g) =
     (if event = IDEVICE_DEVICE_REMOVE then 1 else idevicerestore_quit g)"
  by (cases event) (simp_all add: device_callback_def)

lemma quit_after_deliver:
  "idevicerestore_quit (deliver evs g) =
     (if IDEVICE_DEVICE_REMOVE \<in> set evs then 1 else idevicerestore_quit g)"
proof (induction evs arbitrary: g rule: rev_induct)
  case Nil
  then show ?case by (simp add: deliver_def)
next
  case (snoc event evs)
  have "deliver (evs @ [event]) g = device_callback event (deliver evs g)"
    by (simp add: deliver_def)
  with snoc show ?case by (simp add: quit_after_callback)
qed











text \<open>
  C9. A removal event sets the quit cell and an add event sets the mode cell to
  \<open>RESTORE_MODE\<close>. The loop tests the quit cell before every receive: with the cell
  set it ends without a call, and when a removal event arrives in the course of an
  iteration the loop ends after that iteration, whatever the device would have sent
  next.
\<close>

theorem device_remove_ends_loop_within_one_iteration:
  "idevicerestore_quit (device_callback IDEVICE_DEVICE_REMOVE g) = 1
   \<and> idevicerestore_mode (device_callback IDEVICE_DEVICE_ADD g) = RESTORE_MODE
   \<and> (idevicerestore_quit g \<noteq> 0 \<longrightarrow>
        restore_loop w tss_response filesystem g inputs = ([], Some (Next g)))
   \<and> (idevicerestore_quit g = 0 \<and> IDEVICE_DEVICE_REMOVE \<in> set (li_events x) \<longrightarrow>
        idevicerestore_quit (deliver (li_events x) g) = 1
        \<and> restore_loop w tss_response filesystem g (x # later) =
            bind_run (restore_body w g tss_response filesystem x)
              (\<lambda>_. ([], Some (Next (deliver (li_events x) g)))))"
proof (intro conjI impI)
  show "idevicerestore_quit (device_callback IDEVICE_DEVICE_REMOVE g) = 1"
    by (simp add: device_callback_def)
  show "idevicerestore_mode (device_callback IDEVICE_DEVICE_ADD g) = RESTORE_MODE"
    by (simp add: device_callback_def)
next
  assume "idevicerestore_quit g \<noteq> 0"
  then show "restore_loop w tss_response filesystem g inputs = ([], Some (Next g))"
    by (cases inputs) (simp_all add: next_run_def)
next
  assume a: "idevicerestore_quit g = 0 \<and> IDEVICE_DEVICE_REMOVE \<in> set (li_events x)"
  then show q: "idevicerestore_quit (deliver (li_events x) g) = 1"
    by (simp add: quit_after_deliver)
  then have "restore_loop w tss_response filesystem (deliver (li_events x) g) later
               = ([], Some (Next (deliver (li_events x) g)))"
    by (cases later) (simp_all add: next_run_def)
  with a show "restore_loop w tss_response filesystem g (x # later) =
            bind_run (restore_body w g tss_response filesystem x)
              (\<lambda>_. ([], Some (Next (deliver (li_events x) g))))"
    by simp
qed

theorem device_remove_ends_loop_within_one_iteration_witness:
  "idevicerestore_quit toy_globals = 0
   \<and> IDEVICE_DEVICE_REMOVE \<in> set (li_events removed_during_progress)
   \<and> idevicerestore_quit (toy_globals\<lparr>idevicerestore_quit := 1\<rparr>) \<noteq> 0
   \<and> restore_loop toy_world toy_ticket ''fs.dmg'' (toy_globals\<lparr>idevicerestore_quit := 1\<rparr>)
       [gibberish_request] = ([], Some (Next (toy_globals\<lparr>idevicerestore_quit := 1\<rparr>)))
   \<and> restore_loop toy_world toy_ticket ''fs.dmg'' toy_globals
       [removed_during_progress, gibberish_request]
       = ([Restored_receive, Restore_handle_progress_msg, Plist_free Message],
          Some (Next (toy_globals\<lparr>idevicerestore_quit := 1\<rparr>)))"
proof -
  have h1: "idevicerestore_quit toy_globals = 0
            \<and> IDEVICE_DEVICE_REMOVE \<in> set (li_events removed_during_progress)"
    by (simp add: toy_globals_def removed_during_progress_def)
  have h2: "idevicerestore_quit (toy_globals\<lparr>idevicerestore_quit := 1\<rparr>) \<noteq> 0"
    by simp
  note T = device_remove_ends_loop_within_one_iteration
             [of _ toy_world toy_ticket "''fs.dmg''"]
  have c1: "restore_loop toy_world toy_ticket ''fs.dmg''
              (toy_globals\<lparr>idevicerestore_quit := 1\<rparr>) [gibberish_request]
              = ([], Some (Next (toy_globals\<lparr>idevicerestore_quit := 1\<rparr>)))"
    using T [of "toy_globals\<lparr>idevicerestore_quit := 1\<rparr>" "[gibberish_request]",
             THEN conjunct2, THEN conjunct2, THEN conjunct1, THEN mp, OF h2] .
  have c2: "restore_loop toy_world toy_ticket ''fs.dmg'' toy_globals
              [removed_during_progress, gibberish_request]
              = ([Restored_receive, Restore_handle_progress_msg, Plist_free Message],
                 Some (Next (toy_globals\<lparr>idevicerestore_quit := 1\<rparr>)))"
    using T [of toy_globals _ removed_during_progress "[gibberish_request]",
             THEN conjunct2, THEN conjunct2, THEN conjunct2, THEN mp, OF h1]
    by (simp add: restore_body_def removed_during_progress_def report_status_def
          RESTORE_E_SUCCESS_def bind_run_def next_run_def deliver_def device_callback_def
          toy_globals_def)
  from h1 h2 c1 c2 show ?thesis by blast
qed

end
